theory Spec2Isabelle
  imports Main
begin

section \<open>Python values, exceptions and JSON\<close>

text \<open>
  An exception is kept with the text that \<^verbatim>\<open>str(e)\<close> gives for it. Every handler of
  \<^verbatim>\<open>views.py\<close> is \<^verbatim>\<open>except Exception as e\<close>, so the class of an exception matters in one
  place only: the \<^verbatim>\<open>UnboundLocalError\<close> that \<^verbatim>\<open>del\<close> raises for a local name that was never
  bound. It is kept with the name of the variable; its text is the one of CPython 3.11.
\<close>

datatype exn = Exception string | UnboundLocalError string

definition quoted :: "string \<Rightarrow> string" where
  "quoted s = [CHR 0x27] @ s @ [CHR 0x27]"

fun str :: "exn \<Rightarrow> string" where
  "str (Exception msg) = msg"
| "str (UnboundLocalError v) =
     ''cannot access local variable '' @ quoted v @ '' where it is not associated with a value''"

text \<open>
  What \<^verbatim>\<open>json.loads\<close> returns: JSON data as Python values. A float is kept as the text of
  its literal.
\<close>

datatype json =
    JNull
  | JBool bool
  | JInt int
  | JFloat string
  | JStr string
  | JArr "json list"
  | JObj "(string \<times> json) list"

fun type_name :: "json \<Rightarrow> string" where
  "type_name JNull = ''NoneType''"
| "type_name (JBool b) = ''bool''"
| "type_name (JInt i) = ''int''"
| "type_name (JFloat f) = ''float''"
| "type_name (JStr s) = ''str''"
| "type_name (JArr xs) = ''list''"
| "type_name (JObj kvs) = ''dict''"

text \<open>
  \<^verbatim>\<open>data.get(key)\<close>: on a dict the value, or \<^verbatim>\<open>None\<close> for a missing key; any other Python
  value has no attribute \<^verbatim>\<open>get\<close>, and the attribute lookup raises.
\<close>

fun data_get :: "json \<Rightarrow> string \<Rightarrow> exn + json" where
  "data_get (JObj kvs) key = Inr (case map_of kvs key of None \<Rightarrow> JNull | Some v \<Rightarrow> v)"
| "data_get v key =
     Inl (Exception (quoted (type_name v) @ '' object has no attribute '' @ quoted ''get''))"

section \<open>Task records, the cache and the world\<close>

text \<open>
  The dicts that \<^verbatim>\<open>views.py\<close> stores under a task id have keys among \<^verbatim>\<open>status\<close>,
  \<^verbatim>\<open>progress\<close>, \<^verbatim>\<open>file\<close> and \<^verbatim>\<open>error\<close>. A key that the dict does not have is \<open>None\<close>, which is
  also what \<^verbatim>\<open>task.get(key)\<close> returns for it.
\<close>

record task_state =
  status :: "string option"
  progress :: "int option"
  "file" :: "string option"
  error :: "string option"

definition empty_dict :: task_state where
  "empty_dict = \<lparr>status = None, progress = None, file = None, error = None\<rparr>"

text \<open>
  Django's cache: a value is stored with the time at which it expires, and a lookup
  after that time finds nothing. Time is a clock of whole seconds.
\<close>

record entry =
  val :: task_state
  expires_at :: nat

text \<open>
  The world that the views act on: the cache, the regular files on storage (path to
  content), the clock, the \<^verbatim>\<open>process_task\<close> closures handed to a thread pool and not yet run
  (each with the \<^verbatim>\<open>sitemap_url\<close> and \<^verbatim>\<open>task_id\<close> it has captured), and the number of
  identifiers drawn from \<^verbatim>\<open>uuid.uuid4\<close> so far.
\<close>

record world =
  cache :: "string \<rightharpoonup> entry"
  fs :: "string \<rightharpoonup> string"
  now :: nat
  pool :: "(string \<times> string) list"
  uuid_count :: nat

definition cache_set :: "string \<Rightarrow> task_state \<Rightarrow> nat \<Rightarrow> world \<Rightarrow> world" where
  "cache_set key v timeout w =
     w\<lparr>cache := (cache w)(key \<mapsto> \<lparr>val = v, expires_at = now w + timeout\<rparr>)\<rparr>"

definition cache_get :: "world \<Rightarrow> string \<Rightarrow> task_state option" where
  "cache_get w key =
     (case cache w key of
        None \<Rightarrow> None
      | Some e \<Rightarrow> if now w < expires_at e then Some (val e) else None)"

definition cache_delete :: "string \<Rightarrow> world \<Rightarrow> world" where
  "cache_delete key w = w\<lparr>cache := (cache w)(key := None)\<rparr>"

definition os_path_exists :: "world \<Rightarrow> string \<Rightarrow> bool" where
  "os_path_exists w p = (fs w p \<noteq> None)"

definition os_remove :: "string \<Rightarrow> world \<Rightarrow> world" where
  "os_remove p w = w\<lparr>fs := (fs w)(p := None)\<rparr>"

definition basename :: "string \<Rightarrow> string" where
  "basename p = rev (takeWhile (\<lambda>c. c \<noteq> CHR ''/'') (rev p))"

definition submit :: "string \<times> string \<Rightarrow> world \<Rightarrow> world" where
  "submit job w = w\<lparr>pool := pool w @ [job]\<rparr>"

section \<open>Requests, responses and the collaborators\<close>

record request =
  "method" :: string
  body :: string

datatype content =
    Task_id string
  | Error string
  | Task task_state
  | File_bytes string

record response =
  status_code :: nat
  content :: content
  headers :: "(string \<times> string) list"

definition JsonResponse :: "content \<Rightarrow> nat \<Rightarrow> response" where
  "JsonResponse data st =
     \<lparr>status_code = st, content = data, headers = [(''Content-Type'', ''application/json'')]\<rparr>"

text \<open>
  The functions that \<^verbatim>\<open>views.py\<close> calls and does not define. The three steps of the
  pipeline may do anything to the world (write progress into the cache, write a file,
  take time), so each maps a world to a result and a world. \<^verbatim>\<open>uuid.uuid4\<close> is the
  sequence of the identifiers it returns, call after call.
\<close>

record 'r env =
  json_loads :: "string \<Rightarrow> exn + json"
  normalize_url :: "json \<Rightarrow> exn + string"
  uuid4 :: "nat \<Rightarrow> string"
  fetch_sitemap_urls :: "string \<Rightarrow> world \<Rightarrow> (exn + string list) \<times> world"
  process_sitemap_urls :: "string list \<Rightarrow> nat \<Rightarrow> string \<Rightarrow> world \<Rightarrow> (exn + 'r) \<times> world"
  save_results_to_csv :: "'r \<Rightarrow> string \<Rightarrow> world \<Rightarrow> (exn + string) \<times> world"

section \<open>The views\<close>

subsection \<open>\<^verbatim>\<open>start_sitemap_processing\<close> and its background task\<close>

text \<open>
  \<^verbatim>\<open>del urls, results\<close> in the \<^verbatim>\<open>finally\<close> block of \<^verbatim>\<open>process_task\<close>. A local name is
  bound once its assignment has completed (\<open>Some\<close>) and unbound before (\<open>None\<close>); \<^verbatim>\<open>del\<close>
  of an unbound local raises, and the names are deleted from left to right.
  \<^verbatim>\<open>gc.collect()\<close> follows and changes nothing that the model holds.
\<close>

definition del_urls_results :: "string list option \<Rightarrow> 'r option \<Rightarrow> exn + unit" where
  "del_urls_results urls results =
     (case urls of
        None \<Rightarrow> Inl (UnboundLocalError ''urls'')
      | Some us \<Rightarrow>
          (case results of
             None \<Rightarrow> Inl (UnboundLocalError ''results'')
           | Some rs \<Rightarrow> Inr ()))"

text \<open>The \<^verbatim>\<open>except Exception as e\<close> block of \<^verbatim>\<open>process_task\<close>.\<close>

definition except_block :: "string \<Rightarrow> exn \<Rightarrow> world \<Rightarrow> world" where
  "except_block task_id e w =
     cache_set task_id
       \<lparr>status = Some ''error'', progress = None, file = None, error = Some (str e)\<rparr> 1800 w"

text \<open>
  The closure \<^verbatim>\<open>process_task\<close>, with the \<^verbatim>\<open>sitemap_url\<close> and \<^verbatim>\<open>task_id\<close> it captures. The
  result is \<open>Inr ()\<close> when the function returns and \<open>Inl e\<close> when \<open>e\<close> leaves it (into the
  future of the thread pool, which nobody reads).
\<close>

definition process_task :: "'r env \<Rightarrow> string \<Rightarrow> string \<Rightarrow> world \<Rightarrow> (exn + unit) \<times> world" where
  "process_task env sitemap_url task_id w =
     (case fetch_sitemap_urls env sitemap_url w of
        (Inl e, w1) \<Rightarrow> (del_urls_results None (None :: 'r option), except_block task_id e w1)
      | (Inr urls, w1) \<Rightarrow>
          (case process_sitemap_urls env urls 5 task_id w1 of
             (Inl e, w2) \<Rightarrow>
               (del_urls_results (Some urls) (None :: 'r option), except_block task_id e w2)
           | (Inr results, w2) \<Rightarrow>
               (case save_results_to_csv env results task_id w2 of
                  (Inl e, w3) \<Rightarrow>
                    (del_urls_results (Some urls) (Some results), except_block task_id e w3)
                | (Inr file_path, w3) \<Rightarrow>
                    (del_urls_results (Some urls) (Some results),
                     cache_set task_id
                       \<lparr>status = Some ''completed'', progress = None,
                        file = Some file_path, error = None\<rparr> 1800 w3))))"

definition start_sitemap_processing :: "'r env \<Rightarrow> request \<Rightarrow> world \<Rightarrow> response \<times> world" where
  "start_sitemap_processing env request w =
     (if method request = ''POST'' then
        (case json_loads env (body request) of
           Inl e \<Rightarrow> (JsonResponse (Error (str e)) 400, w)
         | Inr data \<Rightarrow>
             (case data_get data ''sitemap_url'' of
                Inl e \<Rightarrow> (JsonResponse (Error (str e)) 400, w)
              | Inr v \<Rightarrow>
                  (case normalize_url env v of
                     Inl e \<Rightarrow> (JsonResponse (Error (str e)) 400, w)
                   | Inr sitemap_url \<Rightarrow>
                       (let task_id = uuid4 env (uuid_count w);
                            w1 = w\<lparr>uuid_count := Suc (uuid_count w)\<rparr>;
                            w2 = cache_set task_id
                                   \<lparr>status = Some ''pending'', progress = Some 0,
                                    file = None, error = None\<rparr> 1800 w1;
                            w3 = submit (sitemap_url, task_id) w2
                        in (JsonResponse (Task_id task_id) 202, w3)))))
      else (JsonResponse (Error ''Invalid request method'') 405, w))"

subsection \<open>\<^verbatim>\<open>get_task_status\<close>\<close>

text \<open>\<^verbatim>\<open>not task\<close> holds when the lookup gave \<^verbatim>\<open>None\<close> and when it gave the empty dict.\<close>

definition get_task_status :: "world \<Rightarrow> string \<Rightarrow> response \<times> world" where
  "get_task_status w task_id =
     (case cache_get w task_id of
        None \<Rightarrow> (JsonResponse (Error ''Task not found'') 404, w)
      | Some task \<Rightarrow>
          if task = empty_dict then (JsonResponse (Error ''Task not found'') 404, w)
          else (JsonResponse (Task task) 200, w))"

subsection \<open>\<^verbatim>\<open>download_task_file\<close>\<close>

text \<open>
  \<^verbatim>\<open>HttpResponse(file, ...)\<close> reads the open file to its end when it is built, so the
  response holds the bytes before \<^verbatim>\<open>os.remove\<close> runs.
\<close>

definition attachment :: "string \<Rightarrow> string" where
  "attachment file_path =
     ''attachment; filename='' @ [CHR 0x22] @ basename file_path @ [CHR 0x22]"

definition download_task_file :: "world \<Rightarrow> string \<Rightarrow> response \<times> world" where
  "download_task_file w task_id =
     (case cache_get w task_id of
        None \<Rightarrow> (JsonResponse (Error ''File not ready or task not found'') 404, w)
      | Some task \<Rightarrow>
          if task = empty_dict \<or> status task \<noteq> Some ''completed''
          then (JsonResponse (Error ''File not ready or task not found'') 404, w)
          else
            (case file task of
               None \<Rightarrow> (JsonResponse (Error ''File not found'') 404, w)
             | Some file_path \<Rightarrow>
                 if file_path = [] \<or> \<not> os_path_exists w file_path
                 then (JsonResponse (Error ''File not found'') 404, w)
                 else
                   (let response =
                          \<lparr>status_code = 200,
                           content = File_bytes (the (fs w file_path)),
                           headers = [(''Content-Type'', ''application/octet-stream''),
                                      (''Content-Disposition'', attachment file_path)]\<rparr>;
                        w1 = os_remove file_path w;
                        w2 = cache_delete task_id w1
                    in (response, w2))))"

section \<open>Calls in sequence\<close>

text \<open>Status queries for the given task ids, one after the other.\<close>

fun poll_all :: "world \<Rightarrow> string list \<Rightarrow> response list \<times> world" where
  "poll_all w [] = ([], w)"
| "poll_all w (task_id # ids) =
     (let (r, w1) = get_task_status w task_id;
          (rs, w2) = poll_all w1 ids
      in (r # rs, w2))"

text \<open>The same download request, issued \<open>n\<close> times in a row.\<close>

fun download_again :: "nat \<Rightarrow> world \<Rightarrow> string \<Rightarrow> response list \<times> world" where
  "download_again 0 w task_id = ([], w)"
| "download_again (Suc n) w task_id =
     (let (r, w1) = download_task_file w task_id;
          (rs, w2) = download_again n w1 task_id
      in (r # rs, w2))"

section \<open>The system as a sequence of events\<close>

text \<open>
  What can happen to the world: a request to one of the three views, the thread pool
  running the closure at some position of its queue (the closure leaves the queue and
  runs to its end), and time passing.
\<close>

datatype event =
    Submit request
  | Poll string
  | Download string
  | Work nat
  | Tick nat

fun apply_event :: "'r env \<Rightarrow> event \<Rightarrow> world \<Rightarrow> world" where
  "apply_event env (Submit request) w = snd (start_sitemap_processing env request w)"
| "apply_event env (Poll task_id) w = snd (get_task_status w task_id)"
| "apply_event env (Download task_id) w = snd (download_task_file w task_id)"
| "apply_event env (Work i) w =
     (if i < length (pool w)
      then (case pool w ! i of
              (sitemap_url, task_id) \<Rightarrow>
                snd (process_task env sitemap_url task_id
                       (w\<lparr>pool := take i (pool w) @ drop (Suc i) (pool w)\<rparr>)))
      else w)"
| "apply_event env (Tick d) w = w\<lparr>now := now w + d\<rparr>"

fun run_events :: "'r env \<Rightarrow> event list \<Rightarrow> world \<Rightarrow> world" where
  "run_events env [] w = w"
| "run_events env (ev # evs) w = run_events env evs (apply_event env ev w)"

definition terminal :: "string option \<Rightarrow> bool" where
  "terminal s \<longleftrightarrow> s = Some ''completed'' \<or> s = Some ''error''"

text \<open>
  What the events assume of the three pipeline steps: a step that works for one task
  leaves the thread pool, the identifiers drawn and the records of all other tasks alone
  (the fetch is not told the task and leaves every record alone).
\<close>

definition keeps_others :: "string \<Rightarrow> world \<Rightarrow> world \<Rightarrow> bool" where
  "keeps_others task_id w w' \<longleftrightarrow>
     pool w' = pool w \<and> uuid_count w' = uuid_count w
     \<and> (\<forall>key. key \<noteq> task_id \<longrightarrow> cache w' key = cache w key)"

definition well_behaved :: "'r env \<Rightarrow> bool" where
  "well_behaved env \<longleftrightarrow>
     (\<forall>url w task_id. keeps_others task_id w (snd (fetch_sitemap_urls env url w)))
   \<and> (\<forall>urls n task_id w. keeps_others task_id w (snd (process_sitemap_urls env urls n task_id w)))
   \<and> (\<forall>results task_id w. keeps_others task_id w (snd (save_results_to_csv env results task_id w)))"

text \<open>
  The invariant of the reachable worlds: the closures waiting in the pool are for
  pairwise different tasks, each for an identifier that was drawn and whose record is
  not in a terminal status, and every record in the cache is under a drawn identifier.
\<close>

definition pool_inv :: "'r env \<Rightarrow> world \<Rightarrow> bool" where
  "pool_inv env w \<longleftrightarrow>
     distinct (map snd (pool w))
   \<and> (\<forall>job \<in> set (pool w).
        snd job \<in> uuid4 env ` {..<uuid_count w}
      \<and> (\<forall>e. cache w (snd job) = Some e \<longrightarrow> \<not> terminal (status (val e))))
   \<and> dom (cache w) \<subseteq> uuid4 env ` {..<uuid_count w}"

text \<open>
  A task that has been downloaded: its identifier was drawn, no record is stored under
  it and no closure for it waits in the pool.
\<close>

definition purged :: "'r env \<Rightarrow> string \<Rightarrow> world \<Rightarrow> bool" where
  "purged env task_id w \<longleftrightarrow>
     cache w task_id = None
   \<and> task_id \<in> uuid4 env ` {..<uuid_count w}
   \<and> task_id \<notin> snd ` set (pool w)"

section \<open>The update contract of the specification\<close>

text \<open>
  The specification describes the store by a contract of its own (section 4.1):
  \<^verbatim>\<open>update(id, partialState, ttl)\<close> merges fields into the existing record and refreshes
  its expiry, and fails with \<^verbatim>\<open>NotFound\<close> (here \<open>None\<close>) if the record is absent. These two
  definitions follow those words, not the source; they are what the terminal writes of
  \<^verbatim>\<open>process_task\<close> are compared with. A field that the partial state does not name is
  \<open>None\<close> in it.
\<close>

definition merge_fields :: "task_state \<Rightarrow> task_state \<Rightarrow> task_state" where
  "merge_fields old partial =
     \<lparr>status = (case status partial of None \<Rightarrow> status old | Some s \<Rightarrow> Some s),
      progress = (case progress partial of None \<Rightarrow> progress old | Some p \<Rightarrow> Some p),
      file = (case file partial of None \<Rightarrow> file old | Some f \<Rightarrow> Some f),
      error = (case error partial of None \<Rightarrow> error old | Some m \<Rightarrow> Some m)\<rparr>"

definition spec_update :: "string \<Rightarrow> task_state \<Rightarrow> nat \<Rightarrow> world \<Rightarrow> world option" where
  "spec_update key partial ttl w =
     (case cache_get w key of
        None \<Rightarrow> None
      | Some old \<Rightarrow> Some (cache_set key (merge_fields old partial) ttl w))"

section \<open>A concrete environment\<close>

text \<open>
  Stand-ins for the collaborators, to run the views on concrete requests: a parser that
  rejects the empty body, a normalizer that rejects one text, a fetch that fails for
  one URL with an exception of empty text, a processor that reports progress into the
  cache and fails for one URL, and a writer that stores one file per task and fails for
  one result.
\<close>

definition stub_env :: "string list env" where
  "stub_env =
     \<lparr>json_loads = (\<lambda>b. if b = [] then Inl (Exception ''Expecting value'')
                          else Inr (JObj [(''sitemap_url'', JStr b)])),
      normalize_url = (\<lambda>v. case v of
                          JStr s \<Rightarrow> if s = ''??'' then Inl (Exception ''Invalid URL'')
                                    else Inr (''https://'' @ s)
                        | _ \<Rightarrow> Inl (Exception ''Invalid URL'')),
      uuid4 = (\<lambda>n. replicate (Suc n) (CHR ''a'')),
      fetch_sitemap_urls = (\<lambda>url w. if url = ''https://down''
                          then (Inl (Exception []), w)
                          else (Inr [url], w)),
      process_sitemap_urls = (\<lambda>urls max_workers task_id w.
                          if urls = [''https://slow'']
                          then (Inl (Exception ''timed out''),
                                cache_set task_id \<lparr>status = Some ''processing'',
                                  progress = Some 40, file = None, error = None\<rparr> 1800 w)
                          else (Inr urls,
                                cache_set task_id \<lparr>status = Some ''processing'',
                                  progress = Some 100, file = None, error = None\<rparr> 1800 w)),
      save_results_to_csv = (\<lambda>results task_id w.
                          if results = [''https://full'']
                          then (Inl (Exception ''No space left on device''), w)
                          else (Inr (task_id @ ''.csv''),
                                w\<lparr>fs := (fs w)(task_id @ ''.csv'' \<mapsto> concat results)\<rparr>))\<rparr>"

definition world0 :: world where
  "world0 = \<lparr>cache = Map.empty, fs = Map.empty, now = 0, pool = [], uuid_count = 0\<rparr>"

text \<open>
  A world in which task \<^verbatim>\<open>a\<close> is completed and its file is on storage, as the pipeline of
  \<open>stub_env\<close> leaves it.
\<close>

definition world_completed :: world where
  "world_completed =
     \<lparr>cache = [''a'' \<mapsto> \<lparr>val = \<lparr>status = Some ''completed'', progress = None,
                                  file = Some ''a.csv'', error = None\<rparr>,
                          expires_at = 1800\<rparr>],
      fs = [''a.csv'' \<mapsto> ''https://example.com''],
      now = 0, pool = [], uuid_count = 1\<rparr>"

section \<open>Properties of the views\<close>

subsection \<open>Requests that are not POST\<close>

text \<open>
  Claim C10. A request to \<^verbatim>\<open>start_sitemap_processing\<close> whose method is not POST is
  answered with status 405 and the error \<^verbatim>\<open>Invalid request method\<close>; the world is the
  same afterwards, so no task record is created and no background work is scheduled.
\<close>

theorem non_post_rejected:
  "method request \<noteq> ''POST'' \<Longrightarrow>
     start_sitemap_processing env request w =
       (JsonResponse (Error ''Invalid request method'') 405, w)"
  by (simp add: start_sitemap_processing_def)

text \<open>Claim C10 at a GET request.\<close>

theorem non_post_rejected_witness:
  "start_sitemap_processing stub_env \<lparr>method = ''GET'', body = ''example.com''\<rparr> world0 =
     (JsonResponse (Error ''Invalid request method'') 405, world0)
   \<and> status_code (fst (start_sitemap_processing stub_env
        \<lparr>method = ''GET'', body = ''example.com''\<rparr> world0)) = 405"
  using non_post_rejected [of "\<lparr>method = ''GET'', body = ''example.com''\<rparr>" stub_env world0]
  by (simp add: JsonResponse_def)

subsection \<open>The status query reads only\<close>

lemma get_task_status_world: "snd (get_task_status w task_id) = w"
  by (simp add: get_task_status_def split: option.split)

text \<open>
  Claim C9. Any sequence of status queries, for any task ids in any order, leaves the
  world (the cache with every record and its expiry included) as it was, and each
  query answers what a single query on the first world answers.
\<close>

theorem status_query_pure:
  "snd (poll_all w ids) = w \<and>
   fst (poll_all w ids) = map (\<lambda>task_id. fst (get_task_status w task_id)) ids"
proof (induction ids)
  case Nil
  show ?case by simp
next
  case (Cons task_id ids)
  obtain r w1 where g: "get_task_status w task_id = (r, w1)"
    by (cases "get_task_status w task_id")
  with get_task_status_world [of w task_id] have w1: "w1 = w" by simp
  obtain rs w2 where p: "poll_all w ids = (rs, w2)"
    by (cases "poll_all w ids")
  from Cons.IH p have "w2 = w" and "rs = map (\<lambda>task_id. fst (get_task_status w task_id)) ids"
    by simp_all
  with g w1 p show ?case by simp
qed

text \<open>Claim C9 at three queries, two of them for the same task.\<close>

theorem status_query_pure_witness:
  "snd (poll_all world_completed [''a'', ''b'', ''a'']) = world_completed
 \<and> map status_code (fst (poll_all world_completed [''a'', ''b'', ''a''])) = [200, 404, 200]"
  using status_query_pure [of world_completed "[''a'', ''b'', ''a'']"]
  by (simp add: get_task_status_def cache_get_def world_completed_def JsonResponse_def
      empty_dict_def)

subsection \<open>Submission\<close>

text \<open>
  Claim C7. For a POST request whose body parses to a dict: when \<^verbatim>\<open>normalize_url\<close> raises,
  the answer is status 400 with the text of the exception and the world is unchanged (no
  record, no identifier drawn, nothing handed to the thread pool); when it returns, the
  answer is status 202 and exactly one \<^verbatim>\<open>process_task\<close> closure is added to the pool.
\<close>

theorem normalization_failure_rejected:
  assumes "method request = ''POST''"
    and "json_loads env (body request) = Inr data"
    and "data_get data ''sitemap_url'' = Inr v"
  shows "(normalize_url env v = Inl e \<longrightarrow>
            start_sitemap_processing env request w = (JsonResponse (Error (str e)) 400, w))
       \<and> (normalize_url env v = Inr sitemap_url \<longrightarrow>
            status_code (fst (start_sitemap_processing env request w)) = 202
          \<and> pool (snd (start_sitemap_processing env request w)) =
              pool w @ [(sitemap_url, uuid4 env (uuid_count w))])"
  using assms
  by (simp add: start_sitemap_processing_def Let_def JsonResponse_def submit_def cache_set_def)

text \<open>Claim C7 at one request that fails normalization and one that passes.\<close>

theorem normalization_failure_rejected_witness:
  "start_sitemap_processing stub_env \<lparr>method = ''POST'', body = ''??''\<rparr> world0 =
     (JsonResponse (Error ''Invalid URL'') 400, world0)
   \<and> status_code (fst (start_sitemap_processing stub_env
         \<lparr>method = ''POST'', body = ''example.com''\<rparr> world0)) = 202
   \<and> pool (snd (start_sitemap_processing stub_env
         \<lparr>method = ''POST'', body = ''example.com''\<rparr> world0)) =
       [(''https://example.com'', ''a'')]"
proof -
  have a: "start_sitemap_processing stub_env \<lparr>method = ''POST'', body = ''??''\<rparr> world0 =
     (JsonResponse (Error ''Invalid URL'') 400, world0)"
    using normalization_failure_rejected [where request = "\<lparr>method = ''POST'', body = ''??''\<rparr>"
        and env = stub_env and data = "JObj [(''sitemap_url'', JStr ''??'')]" and v = "JStr ''??''"
        and e = "Exception ''Invalid URL''" and w = world0]
    by (simp add: stub_env_def)
  have b: "status_code (fst (start_sitemap_processing stub_env
         \<lparr>method = ''POST'', body = ''example.com''\<rparr> world0)) = 202
   \<and> pool (snd (start_sitemap_processing stub_env
         \<lparr>method = ''POST'', body = ''example.com''\<rparr> world0)) =
       [(''https://example.com'', ''a'')]"
    using normalization_failure_rejected [where request = "\<lparr>method = ''POST'', body = ''example.com''\<rparr>"
        and env = stub_env and data = "JObj [(''sitemap_url'', JStr ''example.com'')]"
        and v = "JStr ''example.com''" and sitemap_url = "''https://example.com''" and w = world0]
    by (simp add: stub_env_def world0_def)
  from a b show ?thesis by simp
qed

lemma inj_stub_uuid4: "inj (uuid4 stub_env)"
  by (auto simp: stub_env_def inj_on_def dest: arg_cong [where f = length])

text \<open>
  Claim C6. A valid submission (a POST request whose body parses to a dict with a URL
  that \<^verbatim>\<open>normalize_url\<close> accepts) is answered with status 202 and the identifier that
  \<^verbatim>\<open>uuid.uuid4\<close> returned. With \<^verbatim>\<open>uuid4\<close> a sequence without repetition, this identifier is
  none of those drawn before. Right after the call, before the closure has run, the
  cache holds under it exactly the record with status pending and progress 0, expiring
  1800 seconds after the submission: a lookup finds it for the next 1800 seconds and
  not from then on.
\<close>

theorem submission_creates_pending:
  assumes "method request = ''POST''"
    and "json_loads env (body request) = Inr data"
    and "data_get data ''sitemap_url'' = Inr v"
    and "normalize_url env v = Inr sitemap_url"
    and "start_sitemap_processing env request w = (resp, w')"
    and "task_id = uuid4 env (uuid_count w)"
  shows "resp = JsonResponse (Task_id task_id) 202
       \<and> (inj (uuid4 env) \<longrightarrow> task_id \<notin> uuid4 env ` {..<uuid_count w})
       \<and> uuid_count w' = Suc (uuid_count w)
       \<and> cache w' task_id =
           Some \<lparr>val = \<lparr>status = Some ''pending'', progress = Some 0, file = None, error = None\<rparr>,
                 expires_at = now w + 1800\<rparr>
       \<and> (\<forall>d. cache_get (w'\<lparr>now := now w' + d\<rparr>) task_id =
             (if d < 1800
              then Some \<lparr>status = Some ''pending'', progress = Some 0, file = None, error = None\<rparr>
              else None))"
proof -
  have "inj (uuid4 env) \<longrightarrow> task_id \<notin> uuid4 env ` {..<uuid_count w}"
    unfolding assms(6) by (auto dest: injD)
  moreover from assms have "resp = JsonResponse (Task_id task_id) 202"
    and "w' = submit (sitemap_url, task_id)
           (cache_set task_id
              \<lparr>status = Some ''pending'', progress = Some 0, file = None, error = None\<rparr> 1800
              (w\<lparr>uuid_count := Suc (uuid_count w)\<rparr>))"
    by (auto simp: start_sitemap_processing_def Let_def)
  ultimately show ?thesis
    by (simp add: submit_def cache_set_def cache_get_def)
qed

text \<open>
  Claim C6 at the second submission, in a world where one identifier has been drawn.
\<close>

theorem submission_creates_pending_witness:
  "fst (start_sitemap_processing stub_env \<lparr>method = ''POST'', body = ''example.org''\<rparr>
         world_completed) = JsonResponse (Task_id ''aa'') 202
   \<and> ''aa'' \<notin> uuid4 stub_env ` {..<uuid_count world_completed}
   \<and> cache (snd (start_sitemap_processing stub_env
        \<lparr>method = ''POST'', body = ''example.org''\<rparr> world_completed)) ''aa'' =
       Some \<lparr>val = \<lparr>status = Some ''pending'', progress = Some 0, file = None, error = None\<rparr>,
             expires_at = 1800\<rparr>
   \<and> cache_get (snd (start_sitemap_processing stub_env
        \<lparr>method = ''POST'', body = ''example.org''\<rparr> world_completed)\<lparr>now := 1799\<rparr>) ''aa'' =
       Some \<lparr>status = Some ''pending'', progress = Some 0, file = None, error = None\<rparr>
   \<and> cache_get (snd (start_sitemap_processing stub_env
        \<lparr>method = ''POST'', body = ''example.org''\<rparr> world_completed)\<lparr>now := 1800\<rparr>) ''aa'' = None"
proof -
  let ?r = "\<lparr>method = ''POST'', body = ''example.org''\<rparr>"
  let ?pending = "\<lparr>status = Some ''pending'', progress = Some 0, file = None, error = None\<rparr>"
  obtain resp w' where s: "start_sitemap_processing stub_env ?r world_completed = (resp, w')"
    by (cases "start_sitemap_processing stub_env ?r world_completed")
  have n: "now w' = 0"
    using s by (auto simp: start_sitemap_processing_def stub_env_def world_completed_def Let_def
        submit_def cache_set_def)
  have "resp = JsonResponse (Task_id ''aa'') 202
       \<and> (inj (uuid4 stub_env) \<longrightarrow> ''aa'' \<notin> uuid4 stub_env ` {..<uuid_count world_completed})
       \<and> uuid_count w' = Suc (uuid_count world_completed)
       \<and> cache w' ''aa'' = Some \<lparr>val = ?pending, expires_at = now world_completed + 1800\<rparr>
       \<and> (\<forall>d. cache_get (w'\<lparr>now := now w' + d\<rparr>) ''aa'' =
             (if d < 1800 then Some ?pending else None))"
    by (rule submission_creates_pending [where request = ?r and env = stub_env
          and data = "JObj [(''sitemap_url'', JStr ''example.org'')]"
          and v = "JStr ''example.org''" and sitemap_url = "''https://example.org''"
          and w = world_completed, OF _ _ _ _ s])
       (simp_all add: stub_env_def world_completed_def)
  with inj_stub_uuid4 have a: "resp = JsonResponse (Task_id ''aa'') 202"
    and f: "''aa'' \<notin> uuid4 stub_env ` {..<uuid_count world_completed}"
    and b: "cache w' ''aa'' = Some \<lparr>val = ?pending, expires_at = now world_completed + 1800\<rparr>"
    and c: "\<And>d. cache_get (w'\<lparr>now := now w' + d\<rparr>) ''aa'' =
             (if d < 1800 then Some ?pending else None)"
    by blast+
  from c [of 1799] c [of 1800] a b f n s show ?thesis by (simp add: world_completed_def)
qed

subsection \<open>Lookups that find nothing\<close>

text \<open>
  A cache lookup finds nothing when no record is stored under the key (never stored,
  or deleted) and when the stored record has expired.
\<close>

lemma cache_get_None_iff:
  "cache_get w key = None \<longleftrightarrow>
     (case cache w key of None \<Rightarrow> True | Some e \<Rightarrow> expires_at e \<le> now w)"
  by (auto simp: cache_get_def split: option.split)

text \<open>
  Claim C5. When the cache lookup finds no record for a task id, the status query
  answers 404 and so does the download. The download also answers 404 when the record
  is there with a status other than completed, and when its status is completed and the
  file it names (if it names one) is not on storage. The world is unchanged in each
  case.
\<close>

theorem absent_not_found:
  "(cache_get w task_id = None \<longrightarrow>
      get_task_status w task_id = (JsonResponse (Error ''Task not found'') 404, w)
    \<and> download_task_file w task_id =
        (JsonResponse (Error ''File not ready or task not found'') 404, w))
 \<and> (cache_get w task_id = Some task \<and> status task \<noteq> Some ''completed'' \<longrightarrow>
      download_task_file w task_id =
        (JsonResponse (Error ''File not ready or task not found'') 404, w))
 \<and> (cache_get w task_id = Some task \<and> status task = Some ''completed''
      \<and> (file task = None \<or> (\<exists>p. file task = Some p \<and> fs w p = None)) \<longrightarrow>
      download_task_file w task_id = (JsonResponse (Error ''File not found'') 404, w))"
  by (auto simp: get_task_status_def download_task_file_def os_path_exists_def empty_dict_def
      split: option.split)

text \<open>
  Claim C5 at an id never stored, an expired record, a pending record and a completed
  record whose file is gone.
\<close>

theorem absent_not_found_witness:
  "get_task_status world0 ''a'' = (JsonResponse (Error ''Task not found'') 404, world0)
 \<and> download_task_file world0 ''a'' =
      (JsonResponse (Error ''File not ready or task not found'') 404, world0)
 \<and> download_task_file (world_completed\<lparr>now := 1800\<rparr>) ''a'' =
      (JsonResponse (Error ''File not ready or task not found'') 404,
       world_completed\<lparr>now := 1800\<rparr>)
 \<and> download_task_file (apply_event stub_env
        (Submit \<lparr>method = ''POST'', body = ''example.com''\<rparr>) world0) ''a'' =
      (JsonResponse (Error ''File not ready or task not found'') 404,
       apply_event stub_env (Submit \<lparr>method = ''POST'', body = ''example.com''\<rparr>) world0)
 \<and> download_task_file (world_completed\<lparr>fs := Map.empty\<rparr>) ''a'' =
      (JsonResponse (Error ''File not found'') 404, world_completed\<lparr>fs := Map.empty\<rparr>)"
proof -
  let ?wp = "apply_event stub_env (Submit \<lparr>method = ''POST'', body = ''example.com''\<rparr>) world0"
  let ?pending = "\<lparr>status = Some ''pending'', progress = Some 0, file = None, error = None\<rparr>"
  let ?done = "\<lparr>status = Some ''completed'', progress = None, file = Some ''a.csv'',
                 error = None\<rparr>"
  have 0: "cache_get world0 ''a'' = None"
    by (simp add: cache_get_def world0_def)
  have 1: "cache_get (world_completed\<lparr>now := 1800\<rparr>) ''a'' = None"
    by (simp add: cache_get_def world_completed_def)
  have 2: "cache_get ?wp ''a'' = Some ?pending \<and> status ?pending \<noteq> Some ''completed''"
    by (simp add: cache_get_def start_sitemap_processing_def stub_env_def world0_def Let_def
        submit_def cache_set_def)
  have 3: "cache_get (world_completed\<lparr>fs := Map.empty\<rparr>) ''a'' = Some ?done
      \<and> status ?done = Some ''completed''
      \<and> (file ?done = None \<or>
          (\<exists>p. file ?done = Some p \<and> fs (world_completed\<lparr>fs := Map.empty\<rparr>) p = None))"
    by (simp add: cache_get_def world_completed_def)
  from 0 absent_not_found [of world0 "''a''"]
    1 absent_not_found [of "world_completed\<lparr>now := 1800\<rparr>" "''a''"]
    2 absent_not_found [of ?wp "''a''" ?pending]
    3 absent_not_found [of "world_completed\<lparr>fs := Map.empty\<rparr>" "''a''" ?done]
  show ?thesis by blast
qed

subsection \<open>Download once\<close>

lemma download_absent:
  "cache_get w task_id = None \<Longrightarrow>
     download_task_file w task_id =
       (JsonResponse (Error ''File not ready or task not found'') 404, w)"
  by (simp add: download_task_file_def)

lemma download_again_absent:
  "cache_get w task_id = None \<Longrightarrow>
     download_again n w task_id =
       (replicate n (JsonResponse (Error ''File not ready or task not found'') 404), w)"
  by (induction n) (simp_all add: download_absent)

text \<open>
  Claim C1. For a task whose record is found with status completed and names a file
  that is on storage, the download answers 200 with the bytes of the file, and in the
  world it returns both the file and the record are gone; every further download of
  the same task id, however many, answers 404 and the file stays absent.
\<close>

theorem download_one_shot:
  assumes "cache_get w task_id = Some task"
    and "status task = Some ''completed''"
    and "file task = Some p"
    and "p \<noteq> []"
    and "fs w p = Some bytes"
    and "download_task_file w task_id = (resp, w')"
  shows "status_code resp = 200 \<and> content resp = File_bytes bytes
       \<and> fs w' p = None \<and> cache w' task_id = None
       \<and> download_again n w' task_id =
           (replicate n (JsonResponse (Error ''File not ready or task not found'') 404), w')
       \<and> fs (snd (download_again n w' task_id)) p = None"
proof -
  from assms(2) have "task \<noteq> empty_dict" by (auto simp: empty_dict_def)
  with assms have r: "resp = \<lparr>status_code = 200, content = File_bytes bytes,
        headers = [(''Content-Type'', ''application/octet-stream''),
                   (''Content-Disposition'', attachment p)]\<rparr>"
    and w': "w' = cache_delete task_id (os_remove p w)"
    by (auto simp: download_task_file_def os_path_exists_def Let_def)
  from w' have c: "cache w' task_id = None" and f: "fs w' p = None"
    by (simp_all add: cache_delete_def os_remove_def)
  from c have "cache_get w' task_id = None" by (simp add: cache_get_def)
  then have "download_again n w' task_id =
           (replicate n (JsonResponse (Error ''File not ready or task not found'') 404), w')"
    by (rule download_again_absent)
  with r c f show ?thesis by simp
qed

text \<open>
  Claim C1 at the completed task of \<open>world_completed\<close>, followed by three more downloads.
\<close>

theorem download_one_shot_witness:
  "status_code (fst (download_task_file world_completed ''a'')) = 200
 \<and> content (fst (download_task_file world_completed ''a'')) = File_bytes ''https://example.com''
 \<and> fs (snd (download_task_file world_completed ''a'')) ''a.csv'' = None
 \<and> cache (snd (download_task_file world_completed ''a'')) ''a'' = None
 \<and> fst (download_again 3 (snd (download_task_file world_completed ''a'')) ''a'') =
      replicate 3 (JsonResponse (Error ''File not ready or task not found'') 404)"
proof -
  let ?done = "\<lparr>status = Some ''completed'', progress = None, file = Some ''a.csv'',
                 error = None\<rparr>"
  obtain resp w' where d: "download_task_file world_completed ''a'' = (resp, w')"
    by (cases "download_task_file world_completed ''a''")
  have "cache_get world_completed ''a'' = Some ?done"
    and "fs world_completed ''a.csv'' = Some ''https://example.com''"
    by (simp_all add: cache_get_def world_completed_def)
  from download_one_shot [OF this(1) _ _ _ this(2) d, of 3] d
  show ?thesis by simp
qed

section \<open>Properties of the pipeline\<close>

subsection \<open>The terminal writes\<close>

text \<open>
  Claim C2, as the source has it. The last write of \<^verbatim>\<open>process_task\<close> is a \<^verbatim>\<open>cache.set\<close>,
  which puts the given dict under the key whatever was stored there before, and also
  when nothing was. When the three steps return, the run ends in the world that the
  writer left, with the record of the task set to exactly status completed and the
  path that the writer returned. When a step raises \<open>e\<close>, it ends in the world at the
  failure, with the record set to exactly status error and the message \<^verbatim>\<open>str(e)\<close>. Neither
  record has a progress field, and each expires 1800 seconds after the write. Every run
  ends in one of these ways.
\<close>

theorem terminal_write_replaces:
  "(fetch_sitemap_urls env sitemap_url w = (Inr urls, wa)
      \<and> process_sitemap_urls env urls 5 task_id wa = (Inr results, wb)
      \<and> save_results_to_csv env results task_id wb = (Inr file_path, wc) \<longrightarrow>
      snd (process_task env sitemap_url task_id w) =
        cache_set task_id
          \<lparr>status = Some ''completed'', progress = None, file = Some file_path,
           error = None\<rparr> 1800 wc
    \<and> cache (snd (process_task env sitemap_url task_id w)) task_id =
        Some \<lparr>val = \<lparr>status = Some ''completed'', progress = None, file = Some file_path,
                     error = None\<rparr>,
              expires_at = now wc + 1800\<rparr>
    \<and> cache_get (snd (process_task env sitemap_url task_id w)) task_id =
        Some \<lparr>status = Some ''completed'', progress = None, file = Some file_path,
              error = None\<rparr>)
 \<and> (fetch_sitemap_urls env sitemap_url w = (Inl e, wa) \<longrightarrow>
      snd (process_task env sitemap_url task_id w) =
        cache_set task_id
          \<lparr>status = Some ''error'', progress = None, file = None, error = Some (str e)\<rparr>
          1800 wa
    \<and> cache (snd (process_task env sitemap_url task_id w)) task_id =
        Some \<lparr>val = \<lparr>status = Some ''error'', progress = None, file = None,
                     error = Some (str e)\<rparr>,
              expires_at = now wa + 1800\<rparr>
    \<and> cache_get (snd (process_task env sitemap_url task_id w)) task_id =
        Some \<lparr>status = Some ''error'', progress = None, file = None, error = Some (str e)\<rparr>)
 \<and> (fetch_sitemap_urls env sitemap_url w = (Inr urls, wa)
      \<and> process_sitemap_urls env urls 5 task_id wa = (Inl e, wb) \<longrightarrow>
      snd (process_task env sitemap_url task_id w) =
        cache_set task_id
          \<lparr>status = Some ''error'', progress = None, file = None, error = Some (str e)\<rparr>
          1800 wb
    \<and> cache (snd (process_task env sitemap_url task_id w)) task_id =
        Some \<lparr>val = \<lparr>status = Some ''error'', progress = None, file = None,
                     error = Some (str e)\<rparr>,
              expires_at = now wb + 1800\<rparr>
    \<and> cache_get (snd (process_task env sitemap_url task_id w)) task_id =
        Some \<lparr>status = Some ''error'', progress = None, file = None, error = Some (str e)\<rparr>)
 \<and> (fetch_sitemap_urls env sitemap_url w = (Inr urls, wa)
      \<and> process_sitemap_urls env urls 5 task_id wa = (Inr results, wb)
      \<and> save_results_to_csv env results task_id wb = (Inl e, wc) \<longrightarrow>
      snd (process_task env sitemap_url task_id w) =
        cache_set task_id
          \<lparr>status = Some ''error'', progress = None, file = None, error = Some (str e)\<rparr>
          1800 wc
    \<and> cache (snd (process_task env sitemap_url task_id w)) task_id =
        Some \<lparr>val = \<lparr>status = Some ''error'', progress = None, file = None,
                     error = Some (str e)\<rparr>,
              expires_at = now wc + 1800\<rparr>
    \<and> cache_get (snd (process_task env sitemap_url task_id w)) task_id =
        Some \<lparr>status = Some ''error'', progress = None, file = None, error = Some (str e)\<rparr>)
 \<and> cache (cache_set task_id v 1800 w') = (cache w')(task_id \<mapsto> \<lparr>val = v, expires_at = now w' + 1800\<rparr>)
 \<and> (\<exists>d. cache (snd (process_task env sitemap_url task_id w)) task_id =
          Some \<lparr>val = d, expires_at = now (snd (process_task env sitemap_url task_id w)) + 1800\<rparr>
      \<and> cache_get (snd (process_task env sitemap_url task_id w)) task_id = Some d
      \<and> progress d = None
      \<and> ((\<exists>file_path. d = \<lparr>status = Some ''completed'', progress = None,
                              file = Some file_path, error = None\<rparr>)
         \<or> (\<exists>e. d = \<lparr>status = Some ''error'', progress = None,
                       file = None, error = Some (str e)\<rparr>)))"
proof -
  have tail: "\<exists>d. cache (snd (process_task env sitemap_url task_id w)) task_id =
          Some \<lparr>val = d, expires_at = now (snd (process_task env sitemap_url task_id w)) + 1800\<rparr>
      \<and> cache_get (snd (process_task env sitemap_url task_id w)) task_id = Some d
      \<and> progress d = None
      \<and> ((\<exists>file_path. d = \<lparr>status = Some ''completed'', progress = None,
                              file = Some file_path, error = None\<rparr>)
         \<or> (\<exists>e. d = \<lparr>status = Some ''error'', progress = None,
                       file = None, error = Some (str e)\<rparr>))"
    by (auto simp: process_task_def except_block_def cache_set_def cache_get_def
        split: prod.split sum.split)
  have upd: "cache (cache_set task_id v 1800 w') =
      (cache w')(task_id \<mapsto> \<lparr>val = v, expires_at = now w' + 1800\<rparr>)"
    by (simp add: cache_set_def)
  have ok: "fetch_sitemap_urls env sitemap_url w = (Inr urls, wa)
      \<and> process_sitemap_urls env urls 5 task_id wa = (Inr results, wb)
      \<and> save_results_to_csv env results task_id wb = (Inr file_path, wc) \<longrightarrow>
      snd (process_task env sitemap_url task_id w) =
        cache_set task_id
          \<lparr>status = Some ''completed'', progress = None, file = Some file_path,
           error = None\<rparr> 1800 wc
    \<and> cache (snd (process_task env sitemap_url task_id w)) task_id =
        Some \<lparr>val = \<lparr>status = Some ''completed'', progress = None, file = Some file_path,
                     error = None\<rparr>,
              expires_at = now wc + 1800\<rparr>
    \<and> cache_get (snd (process_task env sitemap_url task_id w)) task_id =
        Some \<lparr>status = Some ''completed'', progress = None, file = Some file_path,
              error = None\<rparr>"
    by (simp add: process_task_def cache_set_def cache_get_def)
  have failed: "\<And>wx. snd (process_task env sitemap_url task_id w) = except_block task_id e wx \<Longrightarrow>
      snd (process_task env sitemap_url task_id w) =
        cache_set task_id
          \<lparr>status = Some ''error'', progress = None, file = None, error = Some (str e)\<rparr>
          1800 wx
    \<and> cache (snd (process_task env sitemap_url task_id w)) task_id =
        Some \<lparr>val = \<lparr>status = Some ''error'', progress = None, file = None,
                     error = Some (str e)\<rparr>,
              expires_at = now wx + 1800\<rparr>
    \<and> cache_get (snd (process_task env sitemap_url task_id w)) task_id =
        Some \<lparr>status = Some ''error'', progress = None, file = None, error = Some (str e)\<rparr>"
    by (simp add: except_block_def cache_set_def cache_get_def)
  have f1: "fetch_sitemap_urls env sitemap_url w = (Inl e, wa) \<longrightarrow>
      snd (process_task env sitemap_url task_id w) = except_block task_id e wa"
    by (simp add: process_task_def)
  have f2: "fetch_sitemap_urls env sitemap_url w = (Inr urls, wa)
      \<and> process_sitemap_urls env urls 5 task_id wa = (Inl e, wb) \<longrightarrow>
      snd (process_task env sitemap_url task_id w) = except_block task_id e wb"
    by (simp add: process_task_def)
  have f3: "fetch_sitemap_urls env sitemap_url w = (Inr urls, wa)
      \<and> process_sitemap_urls env urls 5 task_id wa = (Inr results, wb)
      \<and> save_results_to_csv env results task_id wb = (Inl e, wc) \<longrightarrow>
      snd (process_task env sitemap_url task_id w) = except_block task_id e wc"
    by (simp add: process_task_def)
  from f1 failed [of wa] f2 failed [of wb] f3 failed [of wc] ok upd tail
  show ?thesis by blast
qed

text \<open>
  Claim C2 as stated fails. In the first run the record holds progress 100 when the
  pipeline reaches its last write (after the writer has returned); the update contract
  would keep that field, the source drops it. In the second run no record is stored
  when the write happens; the update contract fails with not found, the source creates
  the record.
\<close>

theorem terminal_write_merges_counterexample:
  "cache_get
     (snd (save_results_to_csv stub_env [''https://example.com''] ''a''
       (snd (process_sitemap_urls stub_env [''https://example.com''] 5 ''a'' world0)))) ''a''
     = Some \<lparr>status = Some ''processing'', progress = Some 100, file = None, error = None\<rparr>
 \<and> map_option (\<lambda>w. cache_get w ''a'')
      (spec_update ''a''
         \<lparr>status = Some ''completed'', progress = None, file = Some ''a.csv'', error = None\<rparr> 1800
         (snd (save_results_to_csv stub_env [''https://example.com''] ''a''
           (snd (process_sitemap_urls stub_env [''https://example.com''] 5 ''a'' world0)))))
     = Some (Some \<lparr>status = Some ''completed'', progress = Some 100, file = Some ''a.csv'',
                   error = None\<rparr>)
 \<and> cache_get (snd (process_task stub_env ''https://example.com'' ''a'' world0)) ''a''
     = Some \<lparr>status = Some ''completed'', progress = None, file = Some ''a.csv'', error = None\<rparr>
 \<and> cache_get world0 ''a'' = None
 \<and> spec_update ''a''
      \<lparr>status = Some ''error'', progress = None, file = None, error = Some []\<rparr> 1800 world0
     = None
 \<and> cache_get (snd (process_task stub_env ''https://down'' ''a'' world0)) ''a''
     = Some \<lparr>status = Some ''error'', progress = None, file = None, error = Some []\<rparr>"
  by (simp add: process_task_def except_block_def cache_set_def cache_get_def
      spec_update_def merge_fields_def stub_env_def world0_def)

text \<open>
  The amended claim C2 at a run that completes over the pending record of a submission,
  and at a run whose fetch fails while no record is stored.
\<close>

theorem terminal_write_replaces_witness:
  "cache (snd (process_task stub_env ''https://example.com'' ''a''
       (apply_event stub_env (Submit \<lparr>method = ''POST'', body = ''example.com''\<rparr>) world0))) ''a'' =
     Some \<lparr>val = \<lparr>status = Some ''completed'', progress = None, file = Some ''a.csv'',
                  error = None\<rparr>,
           expires_at = 1800\<rparr>
 \<and> cache world0 ''a'' = None
 \<and> cache (snd (process_task stub_env ''https://down'' ''a'' world0)) ''a'' =
     Some \<lparr>val = \<lparr>status = Some ''error'', progress = None, file = None, error = Some []\<rparr>,
           expires_at = 1800\<rparr>"
proof -
  let ?u = "''https://example.com''"
  let ?ws = "apply_event stub_env (Submit \<lparr>method = ''POST'', body = ''example.com''\<rparr>) world0"
  let ?wb = "snd (process_sitemap_urls stub_env [?u] 5 ''a'' ?ws)"
  let ?wc = "snd (save_results_to_csv stub_env [?u] ''a'' ?wb)"
  have 1: "fetch_sitemap_urls stub_env ?u ?ws = (Inr [?u], ?ws)
      \<and> process_sitemap_urls stub_env [?u] 5 ''a'' ?ws = (Inr [?u], ?wb)
      \<and> save_results_to_csv stub_env [?u] ''a'' ?wb = (Inr ''a.csv'', ?wc)"
    by (simp add: stub_env_def)
  have n: "now ?wc = 0"
    by (simp add: stub_env_def start_sitemap_processing_def world0_def Let_def submit_def
        cache_set_def)
  have 2: "fetch_sitemap_urls stub_env ''https://down'' world0 = (Inl (Exception []), world0)"
    by (simp add: stub_env_def)
  from 1 n terminal_write_replaces [where env = stub_env and sitemap_url = ?u
      and task_id = "''a''" and w = ?ws and urls = "[?u]" and wa = ?ws and results = "[?u]"
      and wb = ?wb and file_path = "''a.csv''" and wc = ?wc]
  have a: "cache (snd (process_task stub_env ?u ''a'' ?ws)) ''a'' =
     Some \<lparr>val = \<lparr>status = Some ''completed'', progress = None, file = Some ''a.csv'',
                  error = None\<rparr>,
           expires_at = 1800\<rparr>"
    by simp
  from 2 terminal_write_replaces [where env = stub_env and sitemap_url = "''https://down''"
      and task_id = "''a''" and w = world0 and e = "Exception []" and wa = world0]
  have b: "cache (snd (process_task stub_env ''https://down'' ''a'' world0)) ''a'' =
     Some \<lparr>val = \<lparr>status = Some ''error'', progress = None, file = None, error = Some []\<rparr>,
           expires_at = 1800\<rparr>"
    by (simp add: world0_def)
  have c: "cache world0 ''a'' = None" by (simp add: world0_def)
  from a b c show ?thesis by simp
qed

subsection \<open>Failures of the pipeline\<close>

text \<open>
  Claim C3, as the source has it. When one of the three steps raises an exception \<open>e\<close>,
  the run ends in the world that the \<^verbatim>\<open>except\<close> block makes of the world at the failure: the
  record of the task has status error and the message \<^verbatim>\<open>str(e)\<close>, and expires 1800 seconds
  later. The answer of \<^verbatim>\<open>start_sitemap_processing\<close> does not depend on the three steps, so
  no failure of theirs reaches the submitter.
\<close>

theorem pipeline_failure_recorded:
  "(fetch_sitemap_urls env sitemap_url w = (Inl e, wa) \<longrightarrow>
      snd (process_task env sitemap_url task_id w) = except_block task_id e wa)
 \<and> (fetch_sitemap_urls env sitemap_url w = (Inr urls, wa)
      \<and> process_sitemap_urls env urls 5 task_id wa = (Inl e, wb) \<longrightarrow>
      snd (process_task env sitemap_url task_id w) = except_block task_id e wb)
 \<and> (fetch_sitemap_urls env sitemap_url w = (Inr urls, wa)
      \<and> process_sitemap_urls env urls 5 task_id wa = (Inr results, wb)
      \<and> save_results_to_csv env results task_id wb = (Inl e, wc) \<longrightarrow>
      snd (process_task env sitemap_url task_id w) = except_block task_id e wc)
 \<and> cache (except_block task_id e w') task_id =
      Some \<lparr>val = \<lparr>status = Some ''error'', progress = None, file = None,
                   error = Some (str e)\<rparr>,
            expires_at = now w' + 1800\<rparr>
 \<and> cache_get (except_block task_id e w') task_id =
      Some \<lparr>status = Some ''error'', progress = None, file = None, error = Some (str e)\<rparr>
 \<and> start_sitemap_processing
      (env\<lparr>fetch_sitemap_urls := f, process_sitemap_urls := g, save_results_to_csv := h\<rparr>)
      request w =
    start_sitemap_processing env request w"
  by (auto simp: process_task_def except_block_def cache_set_def cache_get_def
      start_sitemap_processing_def split: sum.split)

text \<open>
  The amended claim C3 at a failing fetch, a failing processor and a failing writer.
\<close>

theorem pipeline_failure_recorded_witness:
  "cache_get (snd (process_task stub_env ''https://down'' ''a'' world0)) ''a'' =
     Some \<lparr>status = Some ''error'', progress = None, file = None, error = Some []\<rparr>
 \<and> cache_get (snd (process_task stub_env ''https://slow'' ''a'' world0)) ''a'' =
     Some \<lparr>status = Some ''error'', progress = None, file = None, error = Some ''timed out''\<rparr>
 \<and> cache_get (snd (process_task stub_env ''https://full'' ''a'' world0)) ''a'' =
     Some \<lparr>status = Some ''error'', progress = None, file = None,
           error = Some ''No space left on device''\<rparr>"
proof -
  let ?prog = "\<lambda>p. cache_set ''a'' \<lparr>status = Some ''processing'', progress = Some p,
                file = None, error = None\<rparr> 1800 world0"
  have 1: "fetch_sitemap_urls stub_env ''https://down'' world0 = (Inl (Exception []), world0)"
    by (simp add: stub_env_def)
  have 2: "fetch_sitemap_urls stub_env ''https://slow'' world0 = (Inr [''https://slow''], world0)
      \<and> process_sitemap_urls stub_env [''https://slow''] 5 ''a'' world0 =
          (Inl (Exception ''timed out''), ?prog 40)"
    by (simp add: stub_env_def)
  have 3: "fetch_sitemap_urls stub_env ''https://full'' world0 = (Inr [''https://full''], world0)
      \<and> process_sitemap_urls stub_env [''https://full''] 5 ''a'' world0 =
          (Inr [''https://full''], ?prog 100)
      \<and> save_results_to_csv stub_env [''https://full''] ''a'' (?prog 100) =
          (Inl (Exception ''No space left on device''), ?prog 100)"
    by (simp add: stub_env_def)
  from 1 pipeline_failure_recorded [where env = stub_env and task_id = "''a''" and w = world0
      and sitemap_url = "''https://down''" and e = "Exception []" and wa = world0
      and w' = world0]
  have a: "cache_get (snd (process_task stub_env ''https://down'' ''a'' world0)) ''a'' =
     Some \<lparr>status = Some ''error'', progress = None, file = None, error = Some []\<rparr>"
    by simp
  from 2 pipeline_failure_recorded [where env = stub_env and task_id = "''a''" and w = world0
      and sitemap_url = "''https://slow''" and e = "Exception ''timed out''"
      and urls = "[''https://slow'']" and wa = world0 and wb = "?prog 40" and w' = "?prog 40"]
  have b: "cache_get (snd (process_task stub_env ''https://slow'' ''a'' world0)) ''a'' =
     Some \<lparr>status = Some ''error'', progress = None, file = None, error = Some ''timed out''\<rparr>"
    by simp
  from 3 pipeline_failure_recorded [where env = stub_env and task_id = "''a''" and w = world0
      and sitemap_url = "''https://full''" and e = "Exception ''No space left on device''"
      and urls = "[''https://full'']" and results = "[''https://full'']"
      and wa = world0 and wb = "?prog 100" and wc = "?prog 100" and w' = "?prog 100"]
  have c: "cache_get (snd (process_task stub_env ''https://full'' ''a'' world0)) ''a'' =
     Some \<lparr>status = Some ''error'', progress = None, file = None,
           error = Some ''No space left on device''\<rparr>"
    by simp
  from a b c show ?thesis by simp
qed

text \<open>
  Claim C3 as stated fails: the message is \<^verbatim>\<open>str(e)\<close>, and an exception raised without
  arguments has the empty text. Here the fetch raises such an exception and the record
  carries the empty message.
\<close>

theorem pipeline_failure_message_counterexample:
  "fetch_sitemap_urls stub_env ''https://down'' world0 = (Inl (Exception []), world0)
 \<and> cache_get (snd (process_task stub_env ''https://down'' ''a'' world0)) ''a'' =
     Some \<lparr>status = Some ''error'', progress = None, file = None, error = Some []\<rparr>"
  by (simp add: process_task_def except_block_def cache_set_def cache_get_def stub_env_def
      world0_def)

subsection \<open>The cleanup\<close>

text \<open>
  The \<^verbatim>\<open>finally\<close> block deletes \<^verbatim>\<open>urls\<close> and \<^verbatim>\<open>results\<close>. When the fetch raised, \<^verbatim>\<open>urls\<close> was
  never bound; when the processor raised, \<^verbatim>\<open>results\<close> was never bound.
\<close>

lemma cleanup_after_failure:
  "(fetch_sitemap_urls env sitemap_url w = (Inl e, wa) \<longrightarrow>
      fst (process_task env sitemap_url task_id w) = Inl (UnboundLocalError ''urls''))
 \<and> (fetch_sitemap_urls env sitemap_url w = (Inr urls, wa)
      \<and> process_sitemap_urls env urls 5 task_id wa = (Inl e, wb) \<longrightarrow>
      fst (process_task env sitemap_url task_id w) = Inl (UnboundLocalError ''results''))"
  by (simp add: process_task_def del_urls_results_def)

text \<open>
  Claim C8 at concrete runs. With a fetch that fails, the cleanup of \<^verbatim>\<open>process_task\<close>
  raises \<^verbatim>\<open>UnboundLocalError\<close> for \<^verbatim>\<open>urls\<close>; with a processor that fails, it raises it for
  \<^verbatim>\<open>results\<close>. With a writer that fails and in a run that completes, both names are bound
  and the cleanup succeeds.
\<close>

theorem cleanup_raises:
  "fst (process_task stub_env ''https://down'' ''a'' world0) = Inl (UnboundLocalError ''urls'')
 \<and> fst (process_task stub_env ''https://slow'' ''a'' world0) =
      Inl (UnboundLocalError ''results'')
 \<and> fst (process_task stub_env ''https://full'' ''a'' world0) = Inr ()
 \<and> fst (process_task stub_env ''https://example.com'' ''a'' world0) = Inr ()"
  by (simp add: process_task_def del_urls_results_def stub_env_def)

section \<open>Properties of the system\<close>

subsection \<open>What a run of the pipeline leaves alone\<close>

lemma keeps_others_refl: "keeps_others task_id w w"
  by (simp add: keeps_others_def)

lemma keeps_others_trans:
  "keeps_others task_id w w1 \<Longrightarrow> keeps_others task_id w1 w2 \<Longrightarrow> keeps_others task_id w w2"
  by (simp add: keeps_others_def)

lemma keeps_others_cache_set: "keeps_others task_id w (cache_set task_id v timeout w)"
  by (simp add: keeps_others_def cache_set_def)

lemma keeps_others_except_block: "keeps_others task_id w (except_block task_id e w)"
  by (simp add: except_block_def keeps_others_cache_set)

lemma well_behaved_fetch:
  assumes "well_behaved env" and "fetch_sitemap_urls env url w = (r, w1)"
  shows "keeps_others task_id w w1"
proof -
  from assms(1) have "keeps_others task_id w (snd (fetch_sitemap_urls env url w))"
    unfolding well_behaved_def by blast
  with assms(2) show ?thesis by simp
qed

lemma well_behaved_process:
  assumes "well_behaved env" and "process_sitemap_urls env urls n task_id w = (r, w1)"
  shows "keeps_others task_id w w1"
proof -
  from assms(1) have "keeps_others task_id w (snd (process_sitemap_urls env urls n task_id w))"
    unfolding well_behaved_def by blast
  with assms(2) show ?thesis by simp
qed

lemma well_behaved_save:
  assumes "well_behaved env" and "save_results_to_csv env results task_id w = (r, w1)"
  shows "keeps_others task_id w w1"
proof -
  from assms(1) have "keeps_others task_id w (snd (save_results_to_csv env results task_id w))"
    unfolding well_behaved_def by blast
  with assms(2) show ?thesis by simp
qed

lemma process_task_keeps_others:
  assumes wb: "well_behaved env"
  shows "keeps_others task_id w (snd (process_task env sitemap_url task_id w))"
proof -
  obtain r1 w1 where f: "fetch_sitemap_urls env sitemap_url w = (r1, w1)"
    by (cases "fetch_sitemap_urls env sitemap_url w")
  from wb f have k1: "keeps_others task_id w w1" by (rule well_behaved_fetch)
  show ?thesis
  proof (cases r1)
    case (Inl e)
    with f have "snd (process_task env sitemap_url task_id w) = except_block task_id e w1"
      by (simp add: process_task_def)
    with keeps_others_trans [OF k1 keeps_others_except_block] show ?thesis by simp
  next
    case (Inr urls)
    obtain r2 w2 where p: "process_sitemap_urls env urls 5 task_id w1 = (r2, w2)"
      by (cases "process_sitemap_urls env urls 5 task_id w1")
    from wb p have "keeps_others task_id w1 w2" by (rule well_behaved_process)
    with k1 have k2: "keeps_others task_id w w2" by (rule keeps_others_trans)
    show ?thesis
    proof (cases r2)
      case (Inl e)
      with f p \<open>r1 = Inr urls\<close>
      have "snd (process_task env sitemap_url task_id w) = except_block task_id e w2"
        by (simp add: process_task_def)
      with keeps_others_trans [OF k2 keeps_others_except_block] show ?thesis by simp
    next
      case (Inr results)
      obtain r3 w3 where s: "save_results_to_csv env results task_id w2 = (r3, w3)"
        by (cases "save_results_to_csv env results task_id w2")
      from wb s have "keeps_others task_id w2 w3" by (rule well_behaved_save)
      with k2 have k3: "keeps_others task_id w w3" by (rule keeps_others_trans)
      show ?thesis
      proof (cases r3)
        case (Inl e)
        with f p s \<open>r1 = Inr urls\<close> \<open>r2 = Inr results\<close>
        have "snd (process_task env sitemap_url task_id w) = except_block task_id e w3"
          by (simp add: process_task_def)
        with keeps_others_trans [OF k3 keeps_others_except_block] show ?thesis by simp
      next
        case (Inr file_path)
        with f p s \<open>r1 = Inr urls\<close> \<open>r2 = Inr results\<close>
        have "snd (process_task env sitemap_url task_id w) =
            cache_set task_id \<lparr>status = Some ''completed'', progress = None,
              file = Some file_path, error = None\<rparr> 1800 w3"
          by (simp add: process_task_def)
        with keeps_others_trans [OF k3 keeps_others_cache_set] show ?thesis by simp
      qed
    qed
  qed
qed

lemma process_task_dom:
  assumes "well_behaved env"
  shows "dom (cache (snd (process_task env sitemap_url task_id w))) \<subseteq> insert task_id (dom (cache w))"
proof
  fix key assume k: "key \<in> dom (cache (snd (process_task env sitemap_url task_id w)))"
  show "key \<in> insert task_id (dom (cache w))"
  proof (cases "key = task_id")
    case True then show ?thesis by simp
  next
    case False
    with process_task_keeps_others [OF assms, of task_id w sitemap_url]
    have "cache (snd (process_task env sitemap_url task_id w)) key = cache w key"
      by (simp add: keeps_others_def)
    with k show ?thesis by (auto simp: dom_def)
  qed
qed

subsection \<open>The invariant\<close>

lemma fresh_uuid:
  "inj (uuid4 env) \<Longrightarrow> uuid4 env n \<notin> uuid4 env ` {..<n}"
  by (auto dest: injD)

lemma issued_mono: "uuid4 env ` {..<n} \<subseteq> uuid4 env ` {..<Suc n}"
  by auto

lemma submit_world:
  "snd (start_sitemap_processing env request w) = w
 \<or> (\<exists>sitemap_url.
        cache (snd (start_sitemap_processing env request w)) =
          (cache w)(uuid4 env (uuid_count w) \<mapsto>
              \<lparr>val = \<lparr>status = Some ''pending'', progress = Some 0, file = None, error = None\<rparr>,
               expires_at = now w + 1800\<rparr>)
      \<and> pool (snd (start_sitemap_processing env request w)) =
          pool w @ [(sitemap_url, uuid4 env (uuid_count w))]
      \<and> uuid_count (snd (start_sitemap_processing env request w)) = Suc (uuid_count w))"
  by (auto simp: start_sitemap_processing_def Let_def submit_def cache_set_def
      split: sum.split)

lemma download_world:
  "snd (download_task_file w task_id) = w
 \<or> (cache (snd (download_task_file w task_id)) = (cache w)(task_id := None)
    \<and> pool (snd (download_task_file w task_id)) = pool w
    \<and> uuid_count (snd (download_task_file w task_id)) = uuid_count w)"
  by (auto simp: download_task_file_def Let_def os_remove_def cache_delete_def
      split: option.split)

lemma pool_inv_submit:
  assumes inv: "pool_inv env w" and inj: "inj (uuid4 env)"
  shows "pool_inv env (snd (start_sitemap_processing env request w))"
proof -
  let ?new = "uuid4 env (uuid_count w)"
  let ?w' = "snd (start_sitemap_processing env request w)"
  let ?entry = "\<lparr>val = \<lparr>status = Some ''pending'', progress = Some 0, file = None, error = None\<rparr>,
               expires_at = now w + 1800\<rparr>"
  from inj have fresh: "?new \<notin> uuid4 env ` {..<uuid_count w}" by (rule fresh_uuid)
  from submit_world [of env request w] show ?thesis
  proof
    assume "?w' = w"
    with inv show ?thesis by simp
  next
    assume "\<exists>sitemap_url. cache ?w' = (cache w)(?new \<mapsto> ?entry)
      \<and> pool ?w' = pool w @ [(sitemap_url, ?new)] \<and> uuid_count ?w' = Suc (uuid_count w)"
    then obtain sitemap_url where c': "cache ?w' = (cache w)(?new \<mapsto> ?entry)"
      and p': "pool ?w' = pool w @ [(sitemap_url, ?new)]"
      and u': "uuid_count ?w' = Suc (uuid_count w)"
      by blast
    from inv have d: "distinct (map snd (pool w))"
      and j: "\<And>job. job \<in> set (pool w) \<Longrightarrow> snd job \<in> uuid4 env ` {..<uuid_count w}"
      and t: "\<And>job e. job \<in> set (pool w) \<Longrightarrow> cache w (snd job) = Some e \<Longrightarrow>
                \<not> terminal (status (val e))"
      and c: "dom (cache w) \<subseteq> uuid4 env ` {..<uuid_count w}"
      by (auto simp: pool_inv_def)
    from j fresh have notin: "?new \<notin> snd ` set (pool w)" by auto
    have 1: "distinct (map snd (pool ?w'))"
      using d notin by (simp add: p')
    have 2: "\<And>job. job \<in> set (pool ?w') \<Longrightarrow> snd job \<in> uuid4 env ` {..<uuid_count ?w'}"
      using j issued_mono [of env "uuid_count w"] by (auto simp: p' u')
    have 3: "\<And>job e. job \<in> set (pool ?w') \<Longrightarrow> cache ?w' (snd job) = Some e \<Longrightarrow>
        \<not> terminal (status (val e))"
      using t by (auto simp: p' c' terminal_def split: if_splits)
    have 4: "dom (cache ?w') \<subseteq> uuid4 env ` {..<uuid_count ?w'}"
      using c issued_mono [of env "uuid_count w"] by (auto simp: c' u')
    from 1 2 3 4 show ?thesis
      unfolding pool_inv_def by blast
  qed
qed

lemma pool_inv_download:
  assumes inv: "pool_inv env w"
  shows "pool_inv env (snd (download_task_file w task_id))"
proof -
  let ?w' = "snd (download_task_file w task_id)"
  from download_world [of w task_id] show ?thesis
  proof
    assume "?w' = w"
    with inv show ?thesis by simp
  next
    assume a: "cache ?w' = (cache w)(task_id := None) \<and> pool ?w' = pool w
      \<and> uuid_count ?w' = uuid_count w"
    from inv show ?thesis
      unfolding pool_inv_def using a by (auto split: if_splits)
  qed
qed

lemma set_remove_nth:
  "i < length xs \<Longrightarrow> set (take i xs @ drop (Suc i) xs) \<subseteq> set xs"
  by (auto dest: in_set_takeD in_set_dropD)

lemma distinct_remove_nth:
  assumes "distinct (map f xs)" and "i < length xs"
  shows "distinct (map f (take i xs @ drop (Suc i) xs))
       \<and> f (xs ! i) \<notin> f ` set (take i xs @ drop (Suc i) xs)"
proof -
  from assms(2) have xs: "xs = take i xs @ xs ! i # drop (Suc i) xs"
    by (simp add: id_take_nth_drop)
  from assms(1) have "distinct (map f (take i xs @ xs ! i # drop (Suc i) xs))"
    using xs by simp
  then show ?thesis by auto
qed

lemma pool_inv_work:
  assumes inv: "pool_inv env w" and wb: "well_behaved env"
  shows "pool_inv env (apply_event env (Work i) w)"
proof (cases "i < length (pool w)")
  case False
  with inv show ?thesis by simp
next
  case True
  obtain sitemap_url task_id where job: "pool w ! i = (sitemap_url, task_id)"
    by (cases "pool w ! i")
  define rest where "rest = take i (pool w) @ drop (Suc i) (pool w)"
  define w' where "w' = snd (process_task env sitemap_url task_id (w\<lparr>pool := rest\<rparr>))"
  from True job have ev: "apply_event env (Work i) w = w'"
    by (simp add: w'_def rest_def)
  from process_task_keeps_others [OF wb, of task_id "w\<lparr>pool := rest\<rparr>" sitemap_url]
  have p': "pool w' = rest" and u': "uuid_count w' = uuid_count w"
    and c': "\<And>key. key \<noteq> task_id \<Longrightarrow> cache w' key = cache w key"
    by (simp_all add: keeps_others_def w'_def)
  from inv have d: "distinct (map snd (pool w))"
    and j: "\<And>job. job \<in> set (pool w) \<Longrightarrow> snd job \<in> uuid4 env ` {..<uuid_count w}"
    and t: "\<And>job e. job \<in> set (pool w) \<Longrightarrow> cache w (snd job) = Some e \<Longrightarrow>
              \<not> terminal (status (val e))"
    and c: "dom (cache w) \<subseteq> uuid4 env ` {..<uuid_count w}"
    by (auto simp: pool_inv_def)
  from True have sub: "set rest \<subseteq> set (pool w)"
    unfolding rest_def by (rule set_remove_nth)
  from distinct_remove_nth [OF d True] job
  have 1: "distinct (map snd rest)" and other: "task_id \<notin> snd ` set rest"
    by (simp_all add: rest_def)
  from True have "pool w ! i \<in> set (pool w)" by (rule nth_mem)
  with job have mem: "(sitemap_url, task_id) \<in> set (pool w)" by simp
  from j [OF mem] have issued: "task_id \<in> uuid4 env ` {..<uuid_count w}" by simp
  have 2: "\<And>job. job \<in> set rest \<Longrightarrow> snd job \<in> uuid4 env ` {..<uuid_count w}"
    using j sub by blast
  have 3: "\<And>job e. job \<in> set rest \<Longrightarrow> cache w' (snd job) = Some e \<Longrightarrow>
      \<not> terminal (status (val e))"
  proof -
    fix job e assume a: "job \<in> set rest" and b: "cache w' (snd job) = Some e"
    from a other have "snd job \<noteq> task_id" by blast
    with b c' have "cache w (snd job) = Some e" by simp
    moreover from a sub have "job \<in> set (pool w)" by blast
    ultimately show "\<not> terminal (status (val e))" by (rule t [rotated])
  qed
  have 4: "dom (cache w') \<subseteq> uuid4 env ` {..<uuid_count w}"
  proof -
    from process_task_dom [OF wb, of sitemap_url task_id "w\<lparr>pool := rest\<rparr>"]
    have "dom (cache w') \<subseteq> insert task_id (dom (cache w))" by (simp add: w'_def)
    with c issued show ?thesis by blast
  qed
  from 1 2 3 4 show ?thesis
    unfolding ev pool_inv_def p' u' by blast
qed

lemma pool_inv_apply_event:
  assumes "pool_inv env w" and "well_behaved env" and "inj (uuid4 env)"
  shows "pool_inv env (apply_event env ev w)"
proof (cases ev)
  case (Submit request)
  with assms show ?thesis by (simp add: pool_inv_submit)
next
  case (Poll task_id)
  with assms show ?thesis by (simp add: get_task_status_world)
next
  case (Download task_id)
  with assms show ?thesis by (simp add: pool_inv_download)
next
  case (Work i)
  with assms show ?thesis by (simp only: pool_inv_work)
next
  case (Tick d)
  with assms show ?thesis by (simp add: pool_inv_def)
qed

lemma pool_inv_run_events:
  assumes "well_behaved env" and "inj (uuid4 env)"
  shows "pool_inv env w \<Longrightarrow> pool_inv env (run_events env evs w)"
proof (induction evs arbitrary: w)
  case Nil
  then show ?case by simp
next
  case (Cons ev evs)
  from Cons.prems assms have "pool_inv env (apply_event env ev w)"
    by (rule pool_inv_apply_event)
  then show ?case by (simp add: Cons.IH)
qed

lemma pool_inv_initial: "cache w = Map.empty \<Longrightarrow> pool w = [] \<Longrightarrow> pool_inv env w"
  by (simp add: pool_inv_def)

subsection \<open>A terminal status is final\<close>

lemma terminal_entry_stable:
  assumes inv: "pool_inv env w" and wb: "well_behaved env" and inj: "inj (uuid4 env)"
    and rec: "cache w task_id = Some e" and fin: "terminal (status (val e))"
  shows "cache (apply_event env ev w) task_id = Some e
       \<or> cache (apply_event env ev w) task_id = None"
proof (cases ev)
  case (Submit request)
  from rec inv have "task_id \<in> uuid4 env ` {..<uuid_count w}"
    by (auto simp: pool_inv_def)
  with fresh_uuid [OF inj, of "uuid_count w"] have "uuid4 env (uuid_count w) \<noteq> task_id"
    by auto
  with submit_world [of env request w] rec Submit show ?thesis by auto
next
  case (Poll key)
  with rec show ?thesis by (simp add: get_task_status_world)
next
  case (Download key)
  with download_world [of w key] rec show ?thesis by (auto split: if_splits)
next
  case (Work i)
  show ?thesis
  proof (cases "i < length (pool w)")
    case False
    with Work rec show ?thesis by simp
  next
    case True
    obtain sitemap_url key where job: "pool w ! i = (sitemap_url, key)"
      by (cases "pool w ! i")
    from True have "pool w ! i \<in> set (pool w)" by (rule nth_mem)
    with job have "(sitemap_url, key) \<in> set (pool w)" by simp
    with inv rec fin have "key \<noteq> task_id"
      by (auto simp: pool_inv_def)
    with process_task_keeps_others [OF wb, of key
        "w\<lparr>pool := take i (pool w) @ drop (Suc i) (pool w)\<rparr>" sitemap_url]
    have "cache (snd (process_task env sitemap_url key
        (w\<lparr>pool := take i (pool w) @ drop (Suc i) (pool w)\<rparr>))) task_id = cache w task_id"
      by (simp add: keeps_others_def)
    with Work True job rec show ?thesis by simp
  qed
next
  case (Tick d)
  with rec show ?thesis by simp
qed

lemma cache_get_Some:
  "cache_get w key = Some t \<longleftrightarrow>
     (\<exists>e. cache w key = Some e \<and> val e = t \<and> now w < expires_at e)"
  by (auto simp: cache_get_def split: option.split)

text \<open>
  Claim C4. Start from a world with an empty cache and an empty pool, let any events
  happen (submissions, status queries, downloads, runs of queued closures, time
  passing), with \<^verbatim>\<open>uuid4\<close> a sequence without repetition and pipeline steps that leave the
  records of other tasks alone. If a task's record is then found with status completed
  or error, any next event leaves that cache entry as it is or deletes it: a lookup
  after the event finds the same record, or nothing (deleted or expired). No event
  gives the task another status.
\<close>

theorem terminal_status_final:
  assumes "well_behaved env" and "inj (uuid4 env)"
    and "cache w0 = Map.empty" and "pool w0 = []"
    and "w = run_events env evs w0"
    and "cache_get w task_id = Some task"
    and "status task = Some ''completed'' \<or> status task = Some ''error''"
  shows "(cache (apply_event env ev w) task_id = cache w task_id
          \<or> cache (apply_event env ev w) task_id = None)
       \<and> (cache_get (apply_event env ev w) task_id = Some task
          \<or> cache_get (apply_event env ev w) task_id = None)"
proof -
  from assms(3,4) have "pool_inv env w0" by (rule pool_inv_initial)
  with assms(1,2,5) have inv: "pool_inv env w" by (simp add: pool_inv_run_events)
  from assms(6) obtain e where rec: "cache w task_id = Some e" and v: "val e = task"
    by (auto simp: cache_get_Some)
  from assms(7) v have "terminal (status (val e))" by (simp add: terminal_def)
  with inv assms(1,2) rec
  have st: "cache (apply_event env ev w) task_id = Some e
       \<or> cache (apply_event env ev w) task_id = None"
    by (rule terminal_entry_stable)
  with rec v show ?thesis
    by (auto simp: cache_get_def split: if_splits)
qed

lemma well_behaved_stub_env: "well_behaved stub_env"
  by (simp add: well_behaved_def stub_env_def keeps_others_def cache_set_def)

text \<open>
  The world after one submission and the run of its closure is \<open>world_completed\<close>.
\<close>

lemma stub_run_completed:
  "run_events stub_env [Submit \<lparr>method = ''POST'', body = ''example.com''\<rparr>, Work 0] world0 =
     world_completed"
  by (simp add: start_sitemap_processing_def process_task_def stub_env_def world0_def
      world_completed_def Let_def submit_def cache_set_def)

text \<open>
  Claim C4 at the completed task of that world: a further submission leaves its record
  as it is, its download deletes it.
\<close>

theorem terminal_status_final_witness:
  "cache_get (run_events stub_env
      [Submit \<lparr>method = ''POST'', body = ''example.com''\<rparr>, Work 0] world0) ''a'' =
     Some \<lparr>status = Some ''completed'', progress = None, file = Some ''a.csv'', error = None\<rparr>
 \<and> cache_get (apply_event stub_env (Submit \<lparr>method = ''POST'', body = ''example.org''\<rparr>)
      (run_events stub_env
        [Submit \<lparr>method = ''POST'', body = ''example.com''\<rparr>, Work 0] world0)) ''a'' =
     Some \<lparr>status = Some ''completed'', progress = None, file = Some ''a.csv'', error = None\<rparr>
 \<and> cache_get (apply_event stub_env (Download ''a'')
      (run_events stub_env
        [Submit \<lparr>method = ''POST'', body = ''example.com''\<rparr>, Work 0] world0)) ''a'' = None"
proof -
  let ?evs = "[Submit \<lparr>method = ''POST'', body = ''example.com''\<rparr>, Work 0]"
  let ?done = "\<lparr>status = Some ''completed'', progress = None, file = Some ''a.csv'',
                 error = None\<rparr>"
  have g: "cache_get (run_events stub_env ?evs world0) ''a'' = Some ?done"
    unfolding stub_run_completed by (simp add: cache_get_def world_completed_def)
  have s: "status ?done = Some ''completed'' \<or> status ?done = Some ''error''" by simp
  have e: "cache world0 = Map.empty" and p: "pool world0 = []"
    by (simp_all add: world0_def)
  note t = terminal_status_final [OF well_behaved_stub_env inj_stub_uuid4 e p refl g s]
  have 1: "cache_get (apply_event stub_env (Submit \<lparr>method = ''POST'', body = ''example.org''\<rparr>)
      (run_events stub_env ?evs world0)) ''a'' \<noteq> None"
    unfolding stub_run_completed
    by (simp add: cache_get_def world_completed_def start_sitemap_processing_def stub_env_def
        Let_def submit_def cache_set_def)
  have 2: "cache_get (apply_event stub_env (Download ''a'')
      (run_events stub_env ?evs world0)) ''a'' \<noteq> Some ?done"
    unfolding stub_run_completed
    by (simp add: cache_get_def world_completed_def download_task_file_def empty_dict_def
        os_path_exists_def os_remove_def cache_delete_def Let_def)
  have pick: "\<And>(x :: task_state option) y. x \<noteq> None \<Longrightarrow> x = y \<or> x = None \<Longrightarrow> x = y"
    and drop: "\<And>(x :: task_state option) y. x \<noteq> y \<Longrightarrow> x = y \<or> x = None \<Longrightarrow> x = None"
    by blast+
  from t [of "Submit \<lparr>method = ''POST'', body = ''example.org''\<rparr>"]
  have a: "cache_get (apply_event stub_env (Submit \<lparr>method = ''POST'', body = ''example.org''\<rparr>)
      (run_events stub_env ?evs world0)) ''a'' = Some ?done"
    by (intro pick [OF 1]) (rule conjunct2)
  from t [of "Download ''a''"]
  have b: "cache_get (apply_event stub_env (Download ''a'')
      (run_events stub_env ?evs world0)) ''a'' = None"
    by (intro drop [OF 2]) (rule conjunct2)
  from g a b show ?thesis by (intro conjI)
qed

subsection \<open>A downloaded task stays gone\<close>

lemma purged_apply_event:
  assumes pu: "purged env task_id w" and wb: "well_behaved env" and inj: "inj (uuid4 env)"
  shows "purged env task_id (apply_event env ev w)"
proof (cases ev)
  case (Submit request)
  from pu have c: "cache w task_id = None"
    and i: "task_id \<in> uuid4 env ` {..<uuid_count w}"
    and p: "task_id \<notin> snd ` set (pool w)"
    by (simp_all add: purged_def)
  from i fresh_uuid [OF inj, of "uuid_count w"] have ne: "uuid4 env (uuid_count w) \<noteq> task_id"
    by auto
  from submit_world [of env request w] show ?thesis
  proof
    assume "snd (start_sitemap_processing env request w) = w"
    with pu Submit show ?thesis by simp
  next
    assume "\<exists>sitemap_url.
        cache (snd (start_sitemap_processing env request w)) =
          (cache w)(uuid4 env (uuid_count w) \<mapsto>
              \<lparr>val = \<lparr>status = Some ''pending'', progress = Some 0, file = None, error = None\<rparr>,
               expires_at = now w + 1800\<rparr>)
      \<and> pool (snd (start_sitemap_processing env request w)) =
          pool w @ [(sitemap_url, uuid4 env (uuid_count w))]
      \<and> uuid_count (snd (start_sitemap_processing env request w)) = Suc (uuid_count w)"
    with c i p ne issued_mono [of env "uuid_count w"] Submit show ?thesis
      unfolding purged_def by auto
  qed
next
  case (Poll key)
  with pu show ?thesis by (simp add: get_task_status_world)
next
  case (Download key)
  with download_world [of w key] pu show ?thesis
    by (auto simp: purged_def)
next
  case (Work i)
  show ?thesis
  proof (cases "i < length (pool w)")
    case False
    with Work pu show ?thesis by simp
  next
    case True
    obtain sitemap_url key where job: "pool w ! i = (sitemap_url, key)"
      by (cases "pool w ! i")
    define rest where "rest = take i (pool w) @ drop (Suc i) (pool w)"
    define w' where "w' = snd (process_task env sitemap_url key (w\<lparr>pool := rest\<rparr>))"
    from True job Work have ev: "apply_event env ev w = w'"
      by (simp add: w'_def rest_def)
    from True have "pool w ! i \<in> set (pool w)" by (rule nth_mem)
    with job pu have "key \<noteq> task_id" by (force simp: purged_def)
    with process_task_keeps_others [OF wb, of key "w\<lparr>pool := rest\<rparr>" sitemap_url]
    have "cache w' task_id = cache w task_id" and "pool w' = rest"
      and "uuid_count w' = uuid_count w"
      by (simp_all add: keeps_others_def w'_def)
    moreover from True have "set rest \<subseteq> set (pool w)"
      unfolding rest_def by (rule set_remove_nth)
    ultimately show ?thesis
      using pu unfolding ev purged_def by auto
  qed
next
  case (Tick d)
  with pu show ?thesis by (simp add: purged_def)
qed

lemma purged_run_events:
  assumes "well_behaved env" and "inj (uuid4 env)"
  shows "purged env task_id w \<Longrightarrow> purged env task_id (run_events env evs w)"
proof (induction evs arbitrary: w)
  case Nil
  then show ?case by simp
next
  case (Cons ev evs)
  from Cons.prems assms have "purged env task_id (apply_event env ev w)"
    by (rule purged_apply_event)
  then show ?case by (simp add: Cons.IH)
qed

lemma download_purges:
  assumes inv: "pool_inv env w"
    and rec: "cache_get w task_id = Some task"
    and st: "status task = Some ''completed''"
    and ok: "status_code (fst (download_task_file w task_id)) = 200"
  shows "purged env task_id (snd (download_task_file w task_id))"
proof -
  from rec obtain e where e: "cache w task_id = Some e" and v: "val e = task"
    by (auto simp: cache_get_Some)
  from e inv have i: "task_id \<in> uuid4 env ` {..<uuid_count w}"
    by (auto simp: pool_inv_def)
  from e v st inv have p: "task_id \<notin> snd ` set (pool w)"
    by (auto simp: pool_inv_def terminal_def)
  from ok have "snd (download_task_file w task_id) =
      cache_delete task_id (os_remove (the (file task)) w)"
    using rec
    by (auto simp: download_task_file_def Let_def JsonResponse_def
        split: option.splits if_splits)
  with i p show ?thesis
    by (simp add: purged_def cache_delete_def os_remove_def)
qed

text \<open>
  After the download of a completed task has succeeded, the download of the same task
  id answers 404 whatever events happen in between.
\<close>

lemma download_stays_not_found:
  assumes "well_behaved env" and "inj (uuid4 env)"
    and "cache w0 = Map.empty" and "pool w0 = []"
    and "w = run_events env evs w0"
    and "cache_get w task_id = Some task"
    and "status task = Some ''completed''"
    and "status_code (fst (download_task_file w task_id)) = 200"
  shows "download_task_file (run_events env later (snd (download_task_file w task_id))) task_id =
           (JsonResponse (Error ''File not ready or task not found'') 404,
            run_events env later (snd (download_task_file w task_id)))"
proof -
  from assms(3,4) have "pool_inv env w0" by (rule pool_inv_initial)
  with assms(1,2,5) have "pool_inv env w" by (simp add: pool_inv_run_events)
  from this assms(6,7,8) have "purged env task_id (snd (download_task_file w task_id))"
    by (rule download_purges)
  with assms(1,2)
  have "purged env task_id (run_events env later (snd (download_task_file w task_id)))"
    by (rule purged_run_events)
  then have "cache_get (run_events env later (snd (download_task_file w task_id))) task_id = None"
    by (simp add: purged_def cache_get_def)
  then show ?thesis by (rule download_absent)
qed

end
